theory Spec2Isabelle
  imports Complex_Main
begin

unbundle bit_operations_syntax

section \<open>Data model of \<^verbatim>\<open>handtrackingmodule.py\<close>\<close>

text \<open>
  A Python float is a binary64 number, and every binary64 number is a real number.
  Normalized landmark coordinates and confidences are modelled as real numbers; the
  one arithmetic step on them, the product of a coordinate and a frame dimension, is
  taken exactly, and concrete inputs in this development are dyadic there, so that the
  binary64 product is the exact one.  The arithmetic on clock readings in \<^verbatim>\<open>main\<close> is
  modelled in binary64: every result is rounded to nearest, ties to even.  Infinities
  and NaN are left out.
\<close>

datatype py_error = IndexError

text \<open>
  A frame is a NumPy array: \<^verbatim>\<open>img.shape\<close> is \<^verbatim>\<open>(h, w, c)\<close> and the pixel buffer is
  left abstract.  Drawing primitives of OpenCV and MediaPipe write into the buffer of
  the array they are given; they cannot change its shape.
\<close>

record 'b frame =
  shape :: "nat \<times> nat \<times> nat"
  pixels :: 'b

text \<open>MediaPipe's \<^verbatim>\<open>NormalizedLandmark\<close> and \<^verbatim>\<open>NormalizedLandmarkList\<close>.\<close>

record normalized_landmark =
  lm_x :: real
  lm_y :: real
  lm_z :: real

record normalized_landmark_list =
  landmark :: "normalized_landmark list"

text \<open>
  The value returned by \<^verbatim>\<open>Hands.process\<close>: \<^verbatim>\<open>multi_hand_landmarks\<close> is \<^verbatim>\<open>None\<close>
  or a list of hands.
\<close>

record solution_outputs =
  multi_hand_landmarks :: "normalized_landmark_list list option"

text \<open>
  The external collaborators (OpenCV, MediaPipe) are parameters of the model.  A type
  \<open>'m\<close> stands for the internal state of the \<^verbatim>\<open>Hands\<close> graph, which \<^verbatim>\<open>process\<close>
  may read and update (tracking in live mode).  The drawing primitives return the new
  pixel buffer of the frame they draw on.
\<close>

record ('b, 'm) cvlib =
  cvtColor_BGR2RGB :: "'b frame \<Rightarrow> 'b frame"
  Hands :: "bool \<Rightarrow> int \<Rightarrow> real \<Rightarrow> real \<Rightarrow> 'm"
  process :: "'m \<Rightarrow> 'b frame \<Rightarrow> solution_outputs \<times> 'm"
  draw_landmarks :: "'b frame \<Rightarrow> normalized_landmark_list \<Rightarrow> 'b"
  circle :: "'b frame \<Rightarrow> int \<times> int \<Rightarrow> int \<Rightarrow> int \<times> int \<times> int \<Rightarrow> int \<Rightarrow> 'b"
  putText :: "'b frame \<Rightarrow> string \<Rightarrow> int \<times> int \<Rightarrow> int \<Rightarrow> int \<times> int \<times> int \<Rightarrow> int \<Rightarrow> 'b"

text \<open>The attributes of a \<^verbatim>\<open>HandDetector\<close> instance.\<close>

record 'm HandDetector =
  mode :: bool
  max_hands :: int
  detection_con :: real
  track_con :: real
  hands :: 'm
  results :: "solution_outputs option"

section \<open>Python primitives\<close>

text \<open>\<^verbatim>\<open>int(f)\<close> on a float truncates towards zero.\<close>

definition py_int :: "real \<Rightarrow> int" where
  "py_int q = (if q < 0 then - \<lfloor>- q\<rfloor> else \<lfloor>q\<rfloor>)"

text \<open>
  \<^verbatim>\<open>xs[i]\<close> on a list: an index below zero counts from the end, an index outside
  \<^verbatim>\<open>-len(xs) .. len(xs) - 1\<close> raises \<^verbatim>\<open>IndexError\<close>.
\<close>

definition py_getitem :: "'a list \<Rightarrow> int \<Rightarrow> py_error + 'a" where
  "py_getitem xs i =
     (if 0 \<le> i \<and> i < int (length xs) then Inr (xs ! nat i)
      else if i < 0 \<and> - int (length xs) \<le> i then Inr (xs ! nat (int (length xs) + i))
      else Inl IndexError)"

section \<open>Binary64 arithmetic\<close>

text \<open>Rounding a real number to the nearest integer, a tie going to the even one.\<close>

definition round_half_even :: "real \<Rightarrow> int" where
  "round_half_even x =
     (let n = \<lfloor>x\<rfloor>; d = x - of_int n
      in if d < 1 / 2 then n else if 1 / 2 < d then n + 1 else if even n then n else n + 1)"

text \<open>The exponent \<open>k\<close> with \<open>2 ^ k \<le> x < 2 ^ (k + 1)\<close> of a positive number.\<close>

function ilog2 :: "real \<Rightarrow> int" where
  "ilog2 x =
     (if x \<le> 0 then 0
      else if x < 1 then ilog2 (2 * x) - 1
      else if 2 \<le> x then ilog2 (x / 2) + 1
      else 0)"
  by pat_completeness auto
termination
proof (relation "measure (\<lambda>x. if x < 1 then nat \<lceil>- log 2 x\<rceil> else nat \<lfloor>log 2 x\<rfloor>)")
  show "wf (measure (\<lambda>x. if x < 1 then nat \<lceil>- log 2 x\<rceil> else nat \<lfloor>log 2 x\<rfloor>))"
    by simp
next
  fix x :: real
  assume a: "\<not> x \<le> 0" "x < 1"
  then have l: "log 2 (2 * x) = 1 + log 2 x"
    by (simp add: log_mult)
  from a have neg: "log 2 x < 0" by simp
  show "(2 * x, x) \<in> measure (\<lambda>x. if x < 1 then nat \<lceil>- log 2 x\<rceil> else nat \<lfloor>log 2 x\<rfloor>)"
  proof (cases "2 * x < 1")
    case True
    then have "log 2 (2 * x) < 0" using a by simp
    then have "log 2 x < - 1" using l by simp
    then have "1 < \<lceil>- log 2 x\<rceil>" by linarith
    moreover have "\<lceil>- log 2 (2 * x)\<rceil> = \<lceil>- log 2 x\<rceil> - 1"
      unfolding l by linarith
    ultimately show ?thesis using True a by simp
  next
    case False
    then have "0 \<le> log 2 (2 * x)" using a by simp
    then have "\<lfloor>log 2 (2 * x)\<rfloor> = 0" using l neg by linarith
    moreover have "0 < \<lceil>- log 2 x\<rceil>" using neg by linarith
    ultimately show ?thesis using False a by simp
  qed
next
  fix x :: real
  assume a: "\<not> x \<le> 0" "\<not> x < 1" "2 \<le> x"
  then have l: "log 2 (x / 2) = log 2 x - 1"
    by (simp add: log_divide)
  from a have "1 \<le> log 2 x"
    by (simp add: one_le_log_cancel_iff)
  then have "0 < \<lfloor>log 2 x\<rfloor>" by linarith
  moreover have "\<lfloor>log 2 (x / 2)\<rfloor> = \<lfloor>log 2 x\<rfloor> - 1"
    unfolding l by linarith
  ultimately show "(x / 2, x) \<in> measure (\<lambda>x. if x < 1 then nat \<lceil>- log 2 x\<rceil> else nat \<lfloor>log 2 x\<rfloor>)"
    using a by simp
qed

declare ilog2.simps [simp del]

definition pow2 :: "int \<Rightarrow> real" where
  "pow2 e = (if 0 \<le> e then 2 ^ nat e else 1 / 2 ^ nat (- e))"

text \<open>
  The binary64 number nearest to a real number, ties to even: a significand of 53 bits
  at the exponent of the number, or at the least exponent \<open>- 1074\<close> for a subnormal.
  The overflow of a result beyond the largest binary64 number is left out.
\<close>

definition b64 :: "real \<Rightarrow> real" where
  "b64 x =
     (if x = 0 then 0
      else (let e = max (ilog2 \<bar>x\<bar> - 52) (- 1074);
                m = round_half_even (\<bar>x\<bar> / pow2 e)
            in sgn x * of_int m * pow2 e))"

section \<open>The class \<^verbatim>\<open>HandDetector\<close>\<close>

definition HandDetector_init ::
  "('b, 'm) cvlib \<Rightarrow> bool \<Rightarrow> int \<Rightarrow> real \<Rightarrow> real \<Rightarrow> 'm HandDetector" where
  "HandDetector_init lib md mh dc tc =
     \<lparr>mode = md, max_hands = mh, detection_con = dc, track_con = tc,
      hands = Hands lib md mh dc tc, results = None\<rparr>"

text \<open>Defaults of the constructor: \<^verbatim>\<open>HandDetector()\<close>.\<close>

definition HandDetector_default :: "('b, 'm) cvlib \<Rightarrow> 'm HandDetector" where
  "HandDetector_default lib = HandDetector_init lib False 2 (1 / 2) (1 / 2)"

text \<open>The loop of \<^verbatim>\<open>findHands\<close> over the detected hands (lines 65 to 67).\<close>

fun draw_hands ::
  "('b, 'm) cvlib \<Rightarrow> bool \<Rightarrow> normalized_landmark_list list \<Rightarrow> 'b frame \<Rightarrow> 'b frame" where
  "draw_hands lib draw [] img = img"
| "draw_hands lib draw (handLms # rest) img =
     draw_hands lib draw rest
       (if draw then img\<lparr>pixels := draw_landmarks lib img handLms\<rparr> else img)"

text \<open>
  The tests \<^verbatim>\<open>if self.results\<close> and \<^verbatim>\<open>if self.results.multi_hand_landmarks\<close> are
  Python truth tests: \<^verbatim>\<open>None\<close> and the empty list are false, the value returned by
  \<^verbatim>\<open>process\<close> is a non-empty named tuple and so is true.
\<close>

text \<open>
  \<^verbatim>\<open>findHands\<close> returns the frame it was given (the same array, drawn on in place)
  together with the detector after the call.
\<close>

definition findHands ::
  "('b, 'm) cvlib \<Rightarrow> 'm HandDetector \<Rightarrow> 'b frame \<Rightarrow> bool \<Rightarrow> 'b frame \<times> 'm HandDetector" where
  "findHands lib self img draw =
     (let imgRGB = cvtColor_BGR2RGB lib img;
          (res, hs) = process lib (hands self) imgRGB;
          self' = self\<lparr>hands := hs, results := Some res\<rparr>
      in case multi_hand_landmarks res of
           None \<Rightarrow> (img, self')
         | Some hls \<Rightarrow>
             if hls = [] then (img, self') else (draw_hands lib draw hls img, self'))"

text \<open>
  The loop of \<^verbatim>\<open>findPosition\<close> over \<^verbatim>\<open>enumerate(myHand.landmark)\<close> (lines 85 to 90):
  the next index, the landmarks still to visit, the frame and \<^verbatim>\<open>lmList\<close> so far.
\<close>

fun position_loop ::
  "('b, 'm) cvlib \<Rightarrow> bool \<Rightarrow> nat \<Rightarrow> normalized_landmark list \<Rightarrow> 'b frame \<Rightarrow> int list list
     \<Rightarrow> 'b frame \<times> int list list" where
  "position_loop lib draw i [] img lmList = (img, lmList)"
| "position_loop lib draw i (lm # rest) img lmList =
     (let (h, w, c) = shape img;
          cx = py_int (lm_x lm * of_nat w);
          cy = py_int (lm_y lm * of_nat h);
          lmList' = lmList @ [[int i, cx, cy]];
          img' = (if draw then img\<lparr>pixels := circle lib img (cx, cy) 8 (255, 0, 255) (- 1)\<rparr>
                  else img)
      in position_loop lib draw (Suc i) rest img' lmList')"

text \<open>
  \<^verbatim>\<open>findPosition\<close> yields what the call returns or raises, the frame after the call
  and the detector after the call.
\<close>

definition findPosition ::
  "('b, 'm) cvlib \<Rightarrow> 'm HandDetector \<Rightarrow> 'b frame \<Rightarrow> int \<Rightarrow> bool
     \<Rightarrow> (py_error + int list list) \<times> 'b frame \<times> 'm HandDetector" where
  "findPosition lib self img hand_no draw =
     (case results self of
        None \<Rightarrow> (Inr [], img, self)
      | Some res \<Rightarrow>
          (case multi_hand_landmarks res of
             None \<Rightarrow> (Inr [], img, self)
           | Some hls \<Rightarrow>
               if hls = [] then (Inr [], img, self)
               else (case py_getitem hls hand_no of
                       Inl e \<Rightarrow> (Inl e, img, self)
                     | Inr myHand \<Rightarrow>
                         (let (img', lmList) =
                                position_loop lib draw 0 (landmark myHand) img []
                          in (Inr lmList, img', self)))))"

section \<open>The function \<^verbatim>\<open>main\<close>\<close>

text \<open>Decimal text of an integer, as \<^verbatim>\<open>f'{n}'\<close> prints it.\<close>

definition digit_char :: "nat \<Rightarrow> char" where
  "digit_char d = ''0123456789'' ! (d mod 10)"

function str_nat :: "nat \<Rightarrow> string" where
  "str_nat n = (if n < 10 then [digit_char n] else str_nat (n div 10) @ [digit_char (n mod 10)])"
  by pat_completeness auto
termination
  by (relation "measure (\<lambda>n. n)") auto

declare str_nat.simps [simp del]

definition str_int :: "int \<Rightarrow> string" where
  "str_int k = (if k < 0 then CHR ''-'' # str_nat (nat (- k)) else str_nat (nat k))"

text \<open>The number that a text of decimal digits denotes, to say what \<open>str_nat\<close> prints.\<close>

definition decimal_value :: "string \<Rightarrow> nat" where
  "decimal_value s = foldl (\<lambda>a c. 10 * a + (of_char c - 48)) 0 s"

text \<open>
  What the environment supplies in one pass through the loop: \<^verbatim>\<open>cap.read()\<close> fails, or
  it delivers a frame, and then \<^verbatim>\<open>time.time()\<close> and \<^verbatim>\<open>cv.waitKey(1)\<close> are read once
  each.  The tick holds the time on the clock, in seconds; \<^verbatim>\<open>time.time()\<close> returns it
  as a float, the binary64 number nearest to it.
\<close>

datatype 'b tick = ReadFailed | ReadOk "'b frame" real int

datatype printed = Message string | Positions "int list list"

text \<open>
  The local variables of \<^verbatim>\<open>main\<close> that outlive an iteration (\<^verbatim>\<open>fps\<close> is unbound
  before the first assignment), what has been printed, the frames handed to
  \<^verbatim>\<open>cv.imshow\<close>, and the two resources.
\<close>

record ('b, 'm) main_state =
  pTime :: real
  cTime :: real
  fps :: "real option"
  detector :: "'m HandDetector"
  stdout :: "printed list"
  shown :: "'b frame list"
  cap_released :: bool
  windows_destroyed :: bool

definition main_init :: "('b, 'm) cvlib \<Rightarrow> ('b, 'm) main_state" where
  "main_init lib =
     \<lparr>pTime = 0, cTime = 0, fps = None, detector = HandDetector_default lib,
      stdout = [], shown = [], cap_released = False, windows_destroyed = False\<rparr>"

datatype ('b, 'm) flow =
  Break "('b, 'm) main_state" | Continue "('b, 'm) main_state" | Raise py_error

text \<open>One pass through the body of \<^verbatim>\<open>while True\<close> (lines 105 to 127).\<close>

definition loop_body ::
  "('b, 'm) cvlib \<Rightarrow> ('b, 'm) main_state \<Rightarrow> 'b tick \<Rightarrow> ('b, 'm) flow" where
  "loop_body lib st tk =
     (case tk of
        ReadFailed \<Rightarrow> Break (st\<lparr>stdout := stdout st @ [Message ''Failed to read from webcam.'']\<rparr>)
      | ReadOk img0 now key \<Rightarrow>
          (let (img1, det1) = findHands lib (detector st) img0 True;
               (r, img2, det2) = findPosition lib det1 img1 0 True
           in case r of
                Inl e \<Rightarrow> Raise e
              | Inr lmList \<Rightarrow>
                  (let out = (if lmList \<noteq> [] then stdout st @ [Positions lmList] else stdout st);
                       t = b64 now;
                       f = (if b64 (t - pTime st) > 0 then b64 (1 / b64 (t - pTime st)) else 0);
                       img3 = img2\<lparr>pixels :=
                                putText lib img2 (''FPS: '' @ str_int (py_int f)) (10, 70) 2 (255, 0, 0) 3\<rparr>;
                       st' = st\<lparr>pTime := t, cTime := t, fps := Some f, detector := det2,
                                stdout := out, shown := shown st @ [img3]\<rparr>
                   in if key AND 255 = 27 then Break st' else Continue st')))"

text \<open>
  The loop runs until it breaks or raises.  It is driven by the list of what the
  environment supplies; \<open>None\<close> says that the list ended with the loop still running.
\<close>

fun main_loop ::
  "('b, 'm) cvlib \<Rightarrow> ('b, 'm) main_state \<Rightarrow> 'b tick list \<Rightarrow> (py_error + ('b, 'm) main_state) option" where
  "main_loop lib st [] = None"
| "main_loop lib st (tk # tks) =
     (case loop_body lib st tk of
        Break st' \<Rightarrow> Some (Inr st')
      | Raise e \<Rightarrow> Some (Inl e)
      | Continue st' \<Rightarrow> main_loop lib st' tks)"

text \<open>
  \<^verbatim>\<open>main\<close>: the loop, then lines 129 and 130.  An exception that leaves the loop
  leaves \<^verbatim>\<open>main\<close> as well, past the two release calls.
\<close>

definition main ::
  "('b, 'm) cvlib \<Rightarrow> 'b tick list \<Rightarrow> (py_error + ('b, 'm) main_state) option" where
  "main lib tks =
     (case main_loop lib (main_init lib) tks of
        None \<Rightarrow> None
      | Some (Inl e) \<Rightarrow> Some (Inl e)
      | Some (Inr st) \<Rightarrow> Some (Inr (st\<lparr>cap_released := True, windows_destroyed := True\<rparr>)))"

text \<open>The passes after which the loop goes on: a frame was read and the key is not Escape.\<close>

fun continues :: "'b tick \<Rightarrow> bool" where
  "continues ReadFailed = False"
| "continues (ReadOk img now key) = (key AND 255 \<noteq> 27)"

section \<open>A test double for the external libraries\<close>

text \<open>
  A library whose landmark model reports the same fixed result for every frame and
  counts the frames it has seen, and whose drawing primitives append what they were
  asked to draw to the pixel buffer, which is the list of these requests.
\<close>

datatype draw_op =
  Skeleton normalized_landmark_list
| Circle "int \<times> int" int "int \<times> int \<times> int" int
| Text string "int \<times> int" int "int \<times> int \<times> int" int

definition mock_lib :: "solution_outputs \<Rightarrow> (draw_op list, nat) cvlib" where
  "mock_lib res =
     \<lparr>cvtColor_BGR2RGB = (\<lambda>img. img),
      Hands = (\<lambda>md mh dc tc. 0),
      process = (\<lambda>m img. (res, Suc m)),
      draw_landmarks = (\<lambda>img handLms. pixels img @ [Skeleton handLms]),
      circle = (\<lambda>img centre radius colour thickness.
                  pixels img @ [Circle centre radius colour thickness]),
      putText = (\<lambda>img txt org scale colour thickness.
                   pixels img @ [Text txt org scale colour thickness])\<rparr>"

definition blank_frame :: "nat \<Rightarrow> nat \<Rightarrow> draw_op list frame" where
  "blank_frame w h = \<lparr>shape = (h, w, 3), pixels = []\<rparr>"

definition one_hand :: "real \<Rightarrow> real \<Rightarrow> solution_outputs" where
  "one_hand a b =
     \<lparr>multi_hand_landmarks =
        Some [\<lparr>landmark = replicate 21 \<lparr>lm_x = a, lm_y = b, lm_z = 0\<rparr>\<rparr>]\<rparr>"

definition no_hands :: solution_outputs where
  "no_hands = \<lparr>multi_hand_landmarks = None\<rparr>"

text \<open>
  A second test double whose landmark model looks at the pixels: it reports one hand
  on a frame nothing has been drawn on and no hand on any other frame.  What it reports
  does not depend on its internal state.
\<close>

definition clean_frame_lib :: "(draw_op list, nat) cvlib" where
  "clean_frame_lib =
     (mock_lib no_hands)
       \<lparr>process := (\<lambda>m img. (if pixels img = [] then one_hand (1 / 2) (1 / 2) else no_hands,
                                Suc m))\<rparr>"

section \<open>Histories of calls on one detector\<close>

text \<open>
  A client calls the two methods in any order.  \<open>after_calls\<close> is the detector after a
  list of calls; a \<^verbatim>\<open>findPosition\<close> that raises is caught by the client and the
  history goes on.
\<close>

datatype 'b call = FindHands "'b frame" bool | FindPosition "'b frame" int bool

fun after_calls :: "('b, 'm) cvlib \<Rightarrow> 'm HandDetector \<Rightarrow> 'b call list \<Rightarrow> 'm HandDetector" where
  "after_calls lib self [] = self"
| "after_calls lib self (FindHands img draw # cs) =
     after_calls lib (snd (findHands lib self img draw)) cs"
| "after_calls lib self (FindPosition img hand_no draw # cs) =
     after_calls lib (snd (snd (findPosition lib self img hand_no draw))) cs"

section \<open>Facts about the two loops and the two methods\<close>

lemma position_loop_shape:
  "shape (fst (position_loop lib draw i lms img acc)) = shape img"
  by (induction lms arbitrary: i img acc) (auto simp: Let_def split: prod.splits)

lemma position_loop_no_draw:
  "fst (position_loop lib False i lms img acc) = img"
  by (induction lms arbitrary: i acc) (auto simp: Let_def split: prod.splits)

lemma position_loop_list:
  "snd (position_loop lib draw i lms img acc) =
     acc @ map (\<lambda>(k, lm). [int k, py_int (lm_x lm * real (fst (snd (shape img)))),
                              py_int (lm_y lm * real (fst (shape img)))])
             (List.enumerate i lms)"
proof (induction lms arbitrary: i img acc)
  case Nil
  show ?case by simp
next
  case (Cons lm rest)
  obtain h w c where s: "shape img = (h, w, c)" by (cases "shape img") auto
  show ?case
    by (simp add: s Cons.IH Let_def)
qed

lemma py_int_trunc: "py_int q = (if 0 \<le> q then \<lfloor>q\<rfloor> else \<lceil>q\<rceil>)"
  by (simp add: py_int_def ceiling_def)

lemma draw_hands_no_draw: "draw_hands lib False hls img = img"
  by (induction hls) auto

lemma findHands_results:
  "results (snd (findHands lib self img draw)) =
     Some (fst (process lib (hands self) (cvtColor_BGR2RGB lib img)))"
  by (simp add: findHands_def Let_def split: prod.splits option.splits)

lemma findPosition_self: "snd (snd (findPosition lib self img hand_no draw)) = self"
  by (simp add: findPosition_def split: option.splits sum.splits prod.splits)

lemma findPosition_shape:
  "shape (fst (snd (findPosition lib self img hand_no draw))) = shape img"
  by (simp add: findPosition_def position_loop_shape
      split: option.splits sum.splits prod.splits)
    (metis fst_conv position_loop_shape)

lemma findPosition_no_draw: "fst (snd (findPosition lib self img hand_no False)) = img"
  by (simp add: findPosition_def split: option.splits sum.splits prod.splits)
    (metis fst_conv position_loop_no_draw)

lemma findPosition_reads_shape_only:
  assumes "shape img' = shape img"
  shows "fst (findPosition lib self img' hand_no draw') = fst (findPosition lib self img hand_no draw)"
proof -
  have "snd (position_loop lib draw' 0 lms img' []) = snd (position_loop lib draw 0 lms img [])" for lms
    by (simp add: position_loop_list assms)
  then show ?thesis
    by (simp add: findPosition_def split: option.splits sum.splits prod.splits)
      (metis snd_conv)
qed

lemma findHands_no_draw: "fst (findHands lib self img False) = img"
  by (simp add: findHands_def Let_def draw_hands_no_draw split: prod.splits option.splits)

lemma after_calls_keeps_result:
  "results self \<noteq> None \<Longrightarrow> results (after_calls lib self cs) \<noteq> None"
proof (induction cs arbitrary: self)
  case Nil
  then show ?case by simp
next
  case (Cons c cs)
  show ?case
  proof (cases c)
    case (FindHands img draw)
    have "results (snd (findHands lib self img draw)) \<noteq> None"
      by (simp add: findHands_results)
    then show ?thesis using Cons.IH FindHands by simp
  next
    case (FindPosition img hand_no draw)
    then show ?thesis using Cons by (simp add: findPosition_self)
  qed
qed

lemma findPosition_depends_on_results:
  "results s = results s' \<Longrightarrow> shape img' = shape img \<Longrightarrow>
     fst (findPosition lib s img' hand_no d') = fst (findPosition lib s' img hand_no d)"
proof -
  assume r: "results s = results s'" and sh: "shape img' = shape img"
  have "fst (findPosition lib s img' hand_no d') = fst (findPosition lib s img hand_no d)"
    by (rule findPosition_reads_shape_only [OF sh])
  also have "\<dots> = fst (findPosition lib s' img hand_no d)"
    using r by (simp add: findPosition_def split: option.splits sum.splits prod.splits)
  finally show ?thesis .
qed

lemma draw_hands_shape: "shape (draw_hands lib draw hls img) = shape img"
  by (induction hls arbitrary: img) auto

lemma findHands_shape: "shape (fst (findHands lib self img draw)) = shape img"
  by (simp add: findHands_def Let_def draw_hands_shape split: prod.splits option.splits)

lemma findHands_no_hands_frame:
  "multi_hand_landmarks (fst (process lib (hands self) (cvtColor_BGR2RGB lib img))) = None
   \<or> multi_hand_landmarks (fst (process lib (hands self) (cvtColor_BGR2RGB lib img))) = Some []
   \<Longrightarrow> fst (findHands lib self img draw) = img"
  by (auto simp: findHands_def Let_def split: prod.splits)

section \<open>Facts about binary64 rounding and decimal text\<close>

lemma round_half_even_nonneg: "0 \<le> x \<Longrightarrow> 0 \<le> round_half_even x"
  by (auto simp: round_half_even_def Let_def)

lemma pow2_pos: "0 < pow2 e"
  by (simp add: pow2_def)

lemma b64_nonneg: "0 \<le> x \<Longrightarrow> 0 \<le> b64 x"
proof (cases "x = 0")
  case True
  then show ?thesis by (simp add: b64_def)
next
  case False
  assume "0 \<le> x"
  with False have p: "0 < x" by simp
  have "0 \<le> \<bar>x\<bar> / pow2 e" for e
    using pow2_pos [of e] by simp
  then have "0 \<le> round_half_even (\<bar>x\<bar> / pow2 e)" for e
    by (rule round_half_even_nonneg)
  then have "0 \<le> real_of_int (round_half_even (\<bar>x\<bar> / pow2 e)) * pow2 e" for e
    using pow2_pos [of e] by simp
  then show ?thesis
    using p by (simp add: b64_def Let_def)
qed

lemma py_int_nonneg: "0 \<le> q \<Longrightarrow> 0 \<le> py_int q"
  by (simp add: py_int_def)

lemma b64_10: "b64 10 = 10"
  by (simp add: b64_def ilog2.simps pow2_def round_half_even_def Let_def)

lemma b64_10_05: "b64 (201 / 20) = 2828823515942093 / 281474976710656"
  by (simp add: b64_def ilog2.simps pow2_def round_half_even_def Let_def)

lemma b64_elapsed: "b64 (14073748835533 / 281474976710656) = 14073748835533 / 281474976710656"
  by (simp add: b64_def ilog2.simps pow2_def round_half_even_def Let_def)

lemma b64_quotient:
  "b64 (281474976710656 / 14073748835533) = 351843720888315 / 17592186044416"
  by (simp add: b64_def ilog2.simps pow2_def round_half_even_def Let_def)

lemma b64_0: "b64 0 = 0"
  by (simp add: b64_def)

lemma str_int_19: "str_int (py_int (351843720888315 / 17592186044416)) = ''19''"
  by (simp add: str_int_def py_int_def str_nat.simps digit_char_def)

lemma str_int_0: "str_int (py_int 0) = ''0''"
  by (simp add: str_int_def py_int_def str_nat.simps digit_char_def)

lemma digit_char_value: "d < 10 \<Longrightarrow> (of_char (digit_char d) :: nat) = 48 + d"
proof -
  assume "d < 10"
  then have "d = 0 \<or> d = 1 \<or> d = 2 \<or> d = 3 \<or> d = 4 \<or> d = 5 \<or> d = 6 \<or> d = 7 \<or> d = 8 \<or> d = 9"
    by presburger
  then show ?thesis
    by (elim disjE) (simp_all add: digit_char_def)
qed

lemma decimal_value_str_nat: "decimal_value (str_nat n) = n"
proof (induction n rule: str_nat.induct)
  case (1 n)
  show ?case
  proof (cases "n < 10")
    case True
    then show ?thesis
      by (subst str_nat.simps) (simp add: digit_char_value decimal_value_def)
  next
    case False
    with "1" have ih: "foldl (\<lambda>a c. 10 * a + (of_char c - 48)) 0 (str_nat (n div 10)) = n div 10"
      by (simp add: decimal_value_def)
    have "n mod 10 < 10" by simp
    then have d: "(of_char (digit_char (n mod 10)) :: nat) = 48 + n mod 10"
      by (rule digit_char_value)
    show ?thesis
      using False ih d by (subst str_nat.simps) (simp add: decimal_value_def)
  qed
qed

section \<open>Facts about the main loop\<close>

lemma findPosition_first_hand_returns:
  "\<exists>lmList. fst (findPosition lib self img 0 draw) = Inr lmList"
  by (auto simp: findPosition_def py_getitem_def split: option.splits prod.splits)

lemma loop_body_ReadOk:
  "\<exists>st' img2.
     loop_body lib st (ReadOk img now key) = (if key AND 255 = 27 then Break st' else Continue st')
   \<and> pTime st' = b64 now \<and> cTime st' = b64 now
   \<and> fps st' = Some (if 0 < b64 (b64 now - pTime st)
                      then b64 (1 / b64 (b64 now - pTime st)) else 0)
   \<and> shown st' = shown st @
        [img2\<lparr>pixels := putText lib img2
            (''FPS: '' @ str_int (py_int (if 0 < b64 (b64 now - pTime st)
                                          then b64 (1 / b64 (b64 now - pTime st)) else 0)))
            (10, 70) 2 (255, 0, 0) 3\<rparr>]
   \<and> cap_released st' = cap_released st \<and> windows_destroyed st' = windows_destroyed st"
proof -
  obtain img1 det1 where fh: "findHands lib (detector st) img True = (img1, det1)"
    by (cases "findHands lib (detector st) img True")
  obtain r img2 det2 where fp: "findPosition lib det1 img1 0 True = (r, img2, det2)"
    by (cases "findPosition lib det1 img1 0 True") auto
  from findPosition_first_hand_returns [of lib det1 img1 True] fp
  obtain lmList where r: "r = Inr lmList" by auto
  show ?thesis
    by (simp add: loop_body_def fh fp r Let_def) blast
qed

lemma loop_body_ReadFailed:
  "loop_body lib st ReadFailed =
     Break (st\<lparr>stdout := stdout st @ [Message ''Failed to read from webcam.'']\<rparr>)"
  by (simp add: loop_body_def)

lemma main_loop_never_raises: "main_loop lib st tks \<noteq> Some (Inl e)"
proof (induction tks arbitrary: st)
  case Nil
  show ?case by simp
next
  case (Cons tk tks)
  show ?case
  proof (cases tk)
    case ReadFailed
    then show ?thesis by (simp add: loop_body_ReadFailed)
  next
    case (ReadOk img now key)
    from loop_body_ReadOk [of lib st img now key]
    obtain st' where "loop_body lib st (ReadOk img now key) =
        (if key AND 255 = 27 then Break st' else Continue st')" by blast
    then show ?thesis using Cons.IH [of st'] ReadOk by (simp split: if_splits)
  qed
qed

lemma main_loop_prefix:
  "list_all continues pre \<Longrightarrow>
     \<exists>st'. (\<forall>rest. main_loop lib st (pre @ rest) = main_loop lib st' rest)
          \<and> length (shown st') = length (shown st) + length pre"
proof (induction pre arbitrary: st)
  case Nil
  show ?case by (rule exI [of _ st]) simp
next
  case (Cons tk pre)
  from Cons.prems obtain img now key where tk: "tk = ReadOk img now key" and k: "key AND 255 \<noteq> 27"
    by (cases tk) auto
  from loop_body_ReadOk [of lib st img now key] k
  obtain s1 where s1: "loop_body lib st (ReadOk img now key) = Continue s1"
      "length (shown s1) = Suc (length (shown st))" by auto
  from Cons.prems have "list_all continues pre" by simp
  from Cons.IH [OF this, of s1]
  obtain st' where st': "\<forall>rest. main_loop lib s1 (pre @ rest) = main_loop lib st' rest"
      "length (shown st') = length (shown s1) + length pre" by blast
  show ?case
    by (rule exI [of _ st']) (simp add: tk s1 st')
qed

lemma main_loop_stops_at_failure:
  "main_loop lib st (pre @ ReadFailed # rest) = main_loop lib st (pre @ [ReadFailed])"
  by (induction pre arbitrary: st) (auto simp: loop_body_ReadFailed split: flow.splits)

section \<open>Pixel positions\<close>

text \<open>
  C1 (as amended).  For a detector whose last result holds the hands \<open>hls\<close>, a hand index
  \<open>0 \<le> hand_no < length hls\<close> and a frame of shape \<open>(h, w, c)\<close>, \<^verbatim>\<open>findPosition\<close>
  raises nothing and returns, in landmark order, one entry \<open>[id, cx, cy]\<close> per landmark
  of the selected hand, where \<open>id\<close> counts from 0 and \<open>cx\<close>, \<open>cy\<close> are \<open>x * w\<close> and
  \<open>y * h\<close> truncated towards zero (the floor of a non-negative product, the ceiling of a
  negative one).  Nothing is clamped to the frame.
\<close>

theorem findPosition_truncates:
  assumes "results self = Some res" and "multi_hand_landmarks res = Some hls"
    and "0 \<le> hand_no" and "hand_no < int (length hls)"
    and "shape img = (h, w, c)"
  shows "fst (findPosition lib self img hand_no draw) =
           Inr (map (\<lambda>(k, lm).
                   [int k,
                    if 0 \<le> lm_x lm * real w then \<lfloor>lm_x lm * real w\<rfloor> else \<lceil>lm_x lm * real w\<rceil>,
                    if 0 \<le> lm_y lm * real h then \<lfloor>lm_y lm * real h\<rfloor> else \<lceil>lm_y lm * real h\<rceil>])
                 (List.enumerate 0 (landmark (hls ! nat hand_no))))"
proof -
  from assms(3,4) have ne: "hls \<noteq> []" by auto
  from assms(3,4) have g: "py_getitem hls hand_no = Inr (hls ! nat hand_no)"
    by (simp add: py_getitem_def)
  have "fst (findPosition lib self img hand_no draw) =
          Inr (snd (position_loop lib draw 0 (landmark (hls ! nat hand_no)) img []))"
    by (simp add: findPosition_def assms(1,2) ne g split: prod.splits)
  then show ?thesis
    by (simp add: position_loop_list assms(5) py_int_trunc)
qed

text \<open>
  The theorem at a frame of 640 by 480 and a hand whose 21 landmarks are at
  \<open>(3/2, - 1/512)\<close>: \<open>cx = 960\<close> lies outside the frame, and \<open>cy\<close> is
  \<open>- 0.9375\<close> truncated to 0.
\<close>

theorem findPosition_truncates_witness:
  "results (snd (findHands (mock_lib (one_hand (3 / 2) (- 1 / 512)))
                  (HandDetector_default (mock_lib (one_hand (3 / 2) (- 1 / 512))))
                  (blank_frame 640 480) True)) = Some (one_hand (3 / 2) (- 1 / 512))
   \<and> multi_hand_landmarks (one_hand (3 / 2) (- 1 / 512))
       = Some [\<lparr>landmark = replicate 21 \<lparr>lm_x = 3 / 2, lm_y = - 1 / 512, lm_z = 0\<rparr>\<rparr>]
   \<and> (0::int) \<le> 0
   \<and> (0::int) < int (length [\<lparr>landmark = replicate 21 \<lparr>lm_x = 3 / 2, lm_y = - 1 / 512, lm_z = 0\<rparr>\<rparr>])
   \<and> shape (blank_frame 640 480) = (480, 640, 3)
   \<and> fst (findPosition (mock_lib (one_hand (3 / 2) (- 1 / 512)))
          (snd (findHands (mock_lib (one_hand (3 / 2) (- 1 / 512)))
                  (HandDetector_default (mock_lib (one_hand (3 / 2) (- 1 / 512))))
                  (blank_frame 640 480) True))
          (blank_frame 640 480) 0 True)
     = Inr [[0, 960, 0], [1, 960, 0], [2, 960, 0], [3, 960, 0], [4, 960, 0], [5, 960, 0],
            [6, 960, 0], [7, 960, 0], [8, 960, 0], [9, 960, 0], [10, 960, 0], [11, 960, 0],
            [12, 960, 0], [13, 960, 0], [14, 960, 0], [15, 960, 0], [16, 960, 0], [17, 960, 0],
            [18, 960, 0], [19, 960, 0], [20, 960, 0]]"
proof -
  have a: "results (snd (findHands (mock_lib (one_hand (3 / 2) (- 1 / 512)))
                  (HandDetector_default (mock_lib (one_hand (3 / 2) (- 1 / 512))))
                  (blank_frame 640 480) True)) = Some (one_hand (3 / 2) (- 1 / 512))"
    by (simp add: findHands_results mock_lib_def)
  have b: "multi_hand_landmarks (one_hand (3 / 2) (- 1 / 512))
       = Some [\<lparr>landmark = replicate 21 \<lparr>lm_x = 3 / 2, lm_y = - 1 / 512, lm_z = 0\<rparr>\<rparr>]"
    by (simp add: one_hand_def)
  have c: "(0::int) < int (length [\<lparr>landmark = replicate 21 \<lparr>lm_x = 3 / 2, lm_y = - 1 / 512, lm_z = 0\<rparr>\<rparr>])"
    by simp
  have d: "shape (blank_frame 640 480) = (480, 640, 3)"
    by (simp add: blank_frame_def)
  have e: "map (\<lambda>(k, lm).
                   [int k,
                    if 0 \<le> lm_x lm * real 640 then \<lfloor>lm_x lm * real 640\<rfloor> else \<lceil>lm_x lm * real 640\<rceil>,
                    if 0 \<le> lm_y lm * real 480 then \<lfloor>lm_y lm * real 480\<rfloor> else \<lceil>lm_y lm * real 480\<rceil>])
                 (List.enumerate 0 (landmark ([\<lparr>landmark = replicate 21 \<lparr>lm_x = 3 / 2, lm_y = - 1 / 512, lm_z = 0\<rparr>\<rparr>] ! nat 0)))
     = [[0, 960, 0], [1, 960, 0], [2, 960, 0], [3, 960, 0], [4, 960, 0], [5, 960, 0],
            [6, 960, 0], [7, 960, 0], [8, 960, 0], [9, 960, 0], [10, 960, 0], [11, 960, 0],
            [12, 960, 0], [13, 960, 0], [14, 960, 0], [15, 960, 0], [16, 960, 0], [17, 960, 0],
            [18, 960, 0], [19, 960, 0], [20, 960, 0]]"
    by (simp add: eval_nat_numeral)
  show ?thesis
    using findPosition_truncates [OF a b order_refl c d, of _ True] a b c d e
    by simp
qed

text \<open>
  The claim as stated, with rounding to the nearest integer, fails: on a frame of 640 by
  480 a landmark at \<open>x = 3/1024\<close> has \<open>x * w = 1.875\<close>, which rounds to 2, and
  \<^verbatim>\<open>findPosition\<close> reports \<open>cx = 1\<close>.
\<close>

theorem findPosition_round_counterexample:
  "fst (findPosition (mock_lib (one_hand (3 / 1024) (3 / 1024)))
          (snd (findHands (mock_lib (one_hand (3 / 1024) (3 / 1024)))
                  (HandDetector_default (mock_lib (one_hand (3 / 1024) (3 / 1024))))
                  (blank_frame 640 480) True))
          (blank_frame 640 480) 0 True)
     = Inr [[0, 1, 1], [1, 1, 1], [2, 1, 1], [3, 1, 1], [4, 1, 1], [5, 1, 1], [6, 1, 1],
            [7, 1, 1], [8, 1, 1], [9, 1, 1], [10, 1, 1], [11, 1, 1], [12, 1, 1], [13, 1, 1],
            [14, 1, 1], [15, 1, 1], [16, 1, 1], [17, 1, 1], [18, 1, 1], [19, 1, 1], [20, 1, 1]]
   \<and> round (3 / 1024 * real 640) = 2"
  by (simp add: findPosition_def findHands_def mock_lib_def one_hand_def HandDetector_default_def
      HandDetector_init_def blank_frame_def py_getitem_def py_int_def eval_nat_numeral round_def Let_def)

section \<open>Hand indices beyond the last result\<close>

text \<open>
  What \<^verbatim>\<open>findPosition\<close> does with a hand index at or beyond the number \<open>n\<close> of hands
  in the last result.  For \<open>n = 0\<close> the guard on line 83 fails and the empty list is
  returned for every index.  For \<open>n \<ge> 1\<close> the guard holds and line 84 subscripts the
  list of hands with the index as it is, which raises \<^verbatim>\<open>IndexError\<close>.
\<close>

lemma findPosition_hand_index_cases:
  assumes "results self = Some res"
  shows "(multi_hand_landmarks res = None \<or> multi_hand_landmarks res = Some []
            \<longrightarrow> findPosition lib self img hand_no draw = (Inr [], img, self))
       \<and> (\<forall>hls. multi_hand_landmarks res = Some hls \<and> hls \<noteq> [] \<and> int (length hls) \<le> hand_no
            \<longrightarrow> findPosition lib self img hand_no draw = (Inl IndexError, img, self))"
  using assms by (auto simp: findPosition_def py_getitem_def)

text \<open>
  C2.  The claim is that a hand index at or beyond the number of hands in the last
  result gives the empty list and never a fault.  The code keeps it when no hand was
  found and breaks it when one was: with one hand in view, the detector configured for
  two hands as by default, \<^verbatim>\<open>findPosition\<close> for \<open>hand_no = 1\<close> raises \<^verbatim>\<open>IndexError\<close>,
  where for a frame without hands the same call returns the empty list.
\<close>

theorem findPosition_second_hand_raises:
  "fst (findPosition (mock_lib (one_hand (1 / 2) (1 / 2)))
          (snd (findHands (mock_lib (one_hand (1 / 2) (1 / 2)))
                  (HandDetector_default (mock_lib (one_hand (1 / 2) (1 / 2))))
                  (blank_frame 640 480) True))
          (blank_frame 640 480) 1 True)
     = Inl IndexError
   \<and> fst (findPosition (mock_lib no_hands)
          (snd (findHands (mock_lib no_hands) (HandDetector_default (mock_lib no_hands))
                  (blank_frame 640 480) True))
          (blank_frame 640 480) 1 True)
     = Inr []"
  by (simp add: findPosition_def findHands_results mock_lib_def one_hand_def no_hands_def
      py_getitem_def)

section \<open>Queries before any detection\<close>

text \<open>
  C3.  On a freshly constructed detector, on which \<^verbatim>\<open>findHands\<close> has not been called,
  \<^verbatim>\<open>findPosition\<close> returns the empty list for every frame, every hand index and every
  draw flag; it raises nothing and leaves frame and detector as they were.
\<close>

theorem findPosition_fresh_detector_empty:
  "findPosition lib (HandDetector_init lib md mh dc tc) img hand_no draw
     = (Inr [], img, HandDetector_init lib md mh dc tc)"
  by (simp add: findPosition_def HandDetector_init_def)

section \<open>Frames without hands\<close>

text \<open>
  C5.  When the model finds no hand in a frame (\<^verbatim>\<open>multi_hand_landmarks\<close> is \<^verbatim>\<open>None\<close>,
  as MediaPipe reports it, or an empty list), \<^verbatim>\<open>findHands\<close> returns the frame it was
  given with nothing drawn on it, whatever the draw flag, and the following
  \<^verbatim>\<open>findPosition\<close> returns the empty list for every hand index and draw flag, raises
  nothing and draws nothing.
\<close>

theorem zero_hands_empty_and_frame_untouched:
  assumes "multi_hand_landmarks (fst (process lib (hands self) (cvtColor_BGR2RGB lib img))) = None
         \<or> multi_hand_landmarks (fst (process lib (hands self) (cvtColor_BGR2RGB lib img))) = Some []"
  shows "fst (findHands lib self img draw) = img
       \<and> findPosition lib (snd (findHands lib self img draw)) img hand_no draw'
           = (Inr [], img, snd (findHands lib self img draw))"
proof -
  have r: "results (snd (findHands lib self img draw)) =
             Some (fst (process lib (hands self) (cvtColor_BGR2RGB lib img)))"
    by (rule findHands_results)
  have "fst (findHands lib self img draw) = img"
    using assms by (auto simp: findHands_def Let_def split: prod.splits)
  moreover have "findPosition lib (snd (findHands lib self img draw)) img hand_no draw'
           = (Inr [], img, snd (findHands lib self img draw))"
    using assms by (auto simp: findPosition_def r)
  ultimately show ?thesis by simp
qed

text \<open>The theorem at a model that reports no hand.\<close>

theorem zero_hands_empty_and_frame_untouched_witness:
  "multi_hand_landmarks (fst (process (mock_lib no_hands)
       (hands (HandDetector_default (mock_lib no_hands)))
       (cvtColor_BGR2RGB (mock_lib no_hands) (blank_frame 640 480)))) = None
   \<and> fst (findHands (mock_lib no_hands) (HandDetector_default (mock_lib no_hands))
            (blank_frame 640 480) True) = blank_frame 640 480
   \<and> fst (findPosition (mock_lib no_hands)
            (snd (findHands (mock_lib no_hands) (HandDetector_default (mock_lib no_hands))
                    (blank_frame 640 480) True))
            (blank_frame 640 480) 0 True) = Inr []"
proof -
  have a: "multi_hand_landmarks (fst (process (mock_lib no_hands)
       (hands (HandDetector_default (mock_lib no_hands)))
       (cvtColor_BGR2RGB (mock_lib no_hands) (blank_frame 640 480)))) = None"
    by (simp add: mock_lib_def no_hands_def)
  show ?thesis
    using zero_hands_empty_and_frame_untouched [OF disjI1, OF a, of True 0 True] a
    by simp
qed

section \<open>Queries leave the detector alone\<close>

text \<open>
  C9.  \<^verbatim>\<open>findPosition\<close> leaves the detector exactly as it was (the stored result and
  the configuration fields), whether it returns or raises, and a second call for the
  same hand on the frame as the first call left it gives the same outcome as the first,
  whatever its draw flag.
\<close>

theorem findPosition_leaves_detector:
  "snd (snd (findPosition lib self img hand_no draw)) = self
   \<and> fst (findPosition lib (snd (snd (findPosition lib self img hand_no draw)))
            (fst (snd (findPosition lib self img hand_no draw))) hand_no draw')
       = fst (findPosition lib self img hand_no draw)"
  by (simp add: findPosition_self findPosition_reads_shape_only findPosition_shape)

section \<open>Calls that do not draw\<close>

text \<open>
  C10.  With its draw flag false, \<^verbatim>\<open>findHands\<close> returns the frame exactly as it was
  given, and so does \<^verbatim>\<open>findPosition\<close>: the only writes to the frame are the two
  draw calls behind \<^verbatim>\<open>if draw\<close>.  \<^verbatim>\<open>findPosition\<close> reads the frame for its
  dimensions only: on two frames of the same shape it gives the same outcome, whatever
  their pixels and the draw flags.
\<close>

theorem no_draw_leaves_frame:
  "fst (findHands lib self img False) = img
   \<and> fst (snd (findPosition lib self img hand_no False)) = img
   \<and> (shape img' = shape img
        \<longrightarrow> fst (findPosition lib self img' hand_no draw') = fst (findPosition lib self img hand_no draw))"
  by (simp add: findHands_no_draw findPosition_no_draw findPosition_reads_shape_only)

text \<open>The theorem at a blank frame and a frame of the same shape with a circle on it.\<close>

theorem no_draw_leaves_frame_witness:
  "shape \<lparr>shape = (480, 640, 3), pixels = [Circle (1, 1) 8 (255, 0, 255) (- 1)]\<rparr>
     = shape (blank_frame 640 480)
   \<and> fst (findHands (mock_lib (one_hand (1 / 2) (1 / 2)))
            (HandDetector_default (mock_lib (one_hand (1 / 2) (1 / 2))))
            (blank_frame 640 480) False) = blank_frame 640 480
   \<and> fst (snd (findPosition (mock_lib (one_hand (1 / 2) (1 / 2)))
            (snd (findHands (mock_lib (one_hand (1 / 2) (1 / 2)))
                    (HandDetector_default (mock_lib (one_hand (1 / 2) (1 / 2))))
                    (blank_frame 640 480) False))
            (blank_frame 640 480) 0 False)) = blank_frame 640 480
   \<and> fst (findPosition (mock_lib (one_hand (1 / 2) (1 / 2)))
            (snd (findHands (mock_lib (one_hand (1 / 2) (1 / 2)))
                    (HandDetector_default (mock_lib (one_hand (1 / 2) (1 / 2))))
                    (blank_frame 640 480) False))
            \<lparr>shape = (480, 640, 3), pixels = [Circle (1, 1) 8 (255, 0, 255) (- 1)]\<rparr> 0 True)
     = fst (findPosition (mock_lib (one_hand (1 / 2) (1 / 2)))
            (snd (findHands (mock_lib (one_hand (1 / 2) (1 / 2)))
                    (HandDetector_default (mock_lib (one_hand (1 / 2) (1 / 2))))
                    (blank_frame 640 480) False))
            (blank_frame 640 480) 0 False)"
proof -
  have a: "shape \<lparr>shape = (480, 640, 3), pixels = [Circle (1, 1) 8 (255, 0, 255) (- 1)]\<rparr>
     = shape (blank_frame 640 480)"
    by (simp add: blank_frame_def)
  show ?thesis
    using no_draw_leaves_frame
      [of "mock_lib (one_hand (1 / 2) (1 / 2))"
          "HandDetector_default (mock_lib (one_hand (1 / 2) (1 / 2)))"
          "blank_frame 640 480" 0
          "\<lparr>shape = (480, 640, 3), pixels = [Circle (1, 1) 8 (255, 0, 255) (- 1)]\<rparr>" True False]
      no_draw_leaves_frame
      [of "mock_lib (one_hand (1 / 2) (1 / 2))"
          "snd (findHands (mock_lib (one_hand (1 / 2) (1 / 2)))
                    (HandDetector_default (mock_lib (one_hand (1 / 2) (1 / 2))))
                    (blank_frame 640 480) False)"
          "blank_frame 640 480" 0
          "\<lparr>shape = (480, 640, 3), pixels = [Circle (1, 1) 8 (255, 0, 255) (- 1)]\<rparr>" True False]
      a
    by simp
qed

section \<open>The two states of a detector\<close>

text \<open>
  C6.  The stored result is absent (\<^verbatim>\<open>None\<close>, the state NoResult) or present
  (HasResult).  A new detector is in NoResult.  After every \<^verbatim>\<open>findHands\<close> the stored
  result is present and is the one the model returned for this frame, whatever was
  stored before and whether hands were found or not.  From HasResult no history of
  \<^verbatim>\<open>findHands\<close> and \<^verbatim>\<open>findPosition\<close> calls leads back to NoResult.
\<close>

theorem detector_two_states:
  "results (HandDetector_init lib md mh dc tc) = None
   \<and> results (snd (findHands lib self img draw))
       = Some (fst (process lib (hands self) (cvtColor_BGR2RGB lib img)))
   \<and> (results self \<noteq> None \<longrightarrow> results (after_calls lib self cs) \<noteq> None)"
  by (simp add: findHands_results after_calls_keeps_result HandDetector_init_def)

text \<open>
  The theorem at a detector that has seen one frame without hands, followed by a query,
  a second detection and a query for a hand that is not there.
\<close>

theorem detector_two_states_witness:
  "results (snd (findHands (mock_lib no_hands) (HandDetector_default (mock_lib no_hands))
                   (blank_frame 640 480) True)) \<noteq> None
   \<and> results (after_calls (mock_lib no_hands)
        (snd (findHands (mock_lib no_hands) (HandDetector_default (mock_lib no_hands))
                   (blank_frame 640 480) True))
        [FindPosition (blank_frame 640 480) 0 True, FindHands (blank_frame 640 480) True,
         FindPosition (blank_frame 640 480) 3 False]) = Some no_hands"
proof -
  have a: "results (snd (findHands (mock_lib no_hands) (HandDetector_default (mock_lib no_hands))
                   (blank_frame 640 480) True)) \<noteq> None"
    by (simp add: findHands_results)
  show ?thesis
    using detector_two_states
      [of "mock_lib no_hands" False 2 "1 / 2" "1 / 2"
          "snd (findHands (mock_lib no_hands) (HandDetector_default (mock_lib no_hands))
                   (blank_frame 640 480) True)"
          "blank_frame 640 480" True
          "[FindPosition (blank_frame 640 480) 0 True, FindHands (blank_frame 640 480) True,
            FindPosition (blank_frame 640 480) 3 False]"] a
    by (simp add: findHands_results findPosition_self mock_lib_def)
qed

section \<open>Detecting twice on one frame\<close>

text \<open>
  C8 (as amended).  \<^verbatim>\<open>findHands\<close> draws on the array it is given and returns that same
  array, so a second call on the same frame receives the frame as the first call left
  it.  Assume the landmark model is deterministic on the frame: what it reports for the
  frame does not depend on its internal state.  If the first call did not draw
  (its draw flag was false, or no hand was found), the frame is as it was.  If the
  frame is as it was, or the model reports for the drawn-on frame what it reports for
  the frame as given, the second call on the same array stores the same result as the
  first, so the same hands, and \<^verbatim>\<open>findPosition\<close> returns the same positions after either
  call.  The same holds for a second call on an untouched copy of the frame.
\<close>

theorem findHands_twice_same_result:
  assumes fh1: "findHands lib self img d1 = (img1, det1)"
    and fh2: "findHands lib det1 img1 d2 = (img2, det2)"
    and det: "\<And>m m'. fst (process lib m (cvtColor_BGR2RGB lib img))
                      = fst (process lib m' (cvtColor_BGR2RGB lib img))"
  shows "(\<not> d1
          \<or> multi_hand_landmarks (fst (process lib (hands self) (cvtColor_BGR2RGB lib img))) = None
          \<or> multi_hand_landmarks (fst (process lib (hands self) (cvtColor_BGR2RGB lib img))) = Some []
          \<longrightarrow> img1 = img)
       \<and> (img1 = img
          \<or> (\<forall>m. fst (process lib m (cvtColor_BGR2RGB lib img1))
                  = fst (process lib m (cvtColor_BGR2RGB lib img)))
          \<longrightarrow> results det2 = results det1
            \<and> fst (findPosition lib det2 img2 hand_no d3)
                = fst (findPosition lib det1 img1 hand_no d3))
       \<and> results (snd (findHands lib det1 img d2)) = results det1"
proof -
  have r1: "results det1 = Some (fst (process lib (hands self) (cvtColor_BGR2RGB lib img)))"
    using findHands_results [of lib self img d1] fh1 by simp
  have r2: "results det2 = Some (fst (process lib (hands det1) (cvtColor_BGR2RGB lib img1)))"
    using findHands_results [of lib det1 img1 d2] fh2 by simp
  have sh: "shape img2 = shape img1"
    using findHands_shape [of lib det1 img1 d2] fh2 by simp
  have same: "img1 = img" if "\<not> d1
          \<or> multi_hand_landmarks (fst (process lib (hands self) (cvtColor_BGR2RGB lib img))) = None
          \<or> multi_hand_landmarks (fst (process lib (hands self) (cvtColor_BGR2RGB lib img))) = Some []"
  proof (cases d1)
    case False
    then show ?thesis using findHands_no_draw [of lib self img] fh1 by simp
  next
    case True
    with that show ?thesis using findHands_no_hands_frame [of lib self img d1] fh1 by auto
  qed
  have again: "results det2 = results det1
            \<and> fst (findPosition lib det2 img2 hand_no d3)
                = fst (findPosition lib det1 img1 hand_no d3)"
    if "img1 = img \<or> (\<forall>m. fst (process lib m (cvtColor_BGR2RGB lib img1))
                  = fst (process lib m (cvtColor_BGR2RGB lib img)))"
  proof -
    from that have "fst (process lib (hands det1) (cvtColor_BGR2RGB lib img1))
                      = fst (process lib (hands det1) (cvtColor_BGR2RGB lib img))"
      by auto
    also have "\<dots> = fst (process lib (hands self) (cvtColor_BGR2RGB lib img))"
      by (rule det)
    finally have r: "results det2 = results det1"
      by (simp add: r1 r2)
    from findPosition_depends_on_results [OF r sh] r show ?thesis by simp
  qed
  have copy: "results (snd (findHands lib det1 img d2)) = results det1"
    by (simp add: findHands_results r1 det [of "hands det1" "hands self"])
  from same again copy show ?thesis by blast
qed

text \<open>
  The theorem at the test double whose model ignores the pixels, with both calls
  drawing: the second call receives the frame with one skeleton on it.
\<close>

theorem findHands_twice_same_result_witness:
  "findHands (mock_lib (one_hand (1 / 2) (1 / 2)))
       (HandDetector_default (mock_lib (one_hand (1 / 2) (1 / 2)))) (blank_frame 640 480) True
     = (\<lparr>shape = (480, 640, 3),
         pixels = [Skeleton \<lparr>landmark = replicate 21 \<lparr>lm_x = 1 / 2, lm_y = 1 / 2, lm_z = 0\<rparr>\<rparr>]\<rparr>,
        \<lparr>mode = False, max_hands = 2, detection_con = 1 / 2, track_con = 1 / 2, hands = 1,
         results = Some (one_hand (1 / 2) (1 / 2))\<rparr>)
   \<and> findHands (mock_lib (one_hand (1 / 2) (1 / 2)))
       \<lparr>mode = False, max_hands = 2, detection_con = 1 / 2, track_con = 1 / 2, hands = 1,
        results = Some (one_hand (1 / 2) (1 / 2))\<rparr>
       \<lparr>shape = (480, 640, 3),
        pixels = [Skeleton \<lparr>landmark = replicate 21 \<lparr>lm_x = 1 / 2, lm_y = 1 / 2, lm_z = 0\<rparr>\<rparr>]\<rparr>
       True
     = (\<lparr>shape = (480, 640, 3),
         pixels = [Skeleton \<lparr>landmark = replicate 21 \<lparr>lm_x = 1 / 2, lm_y = 1 / 2, lm_z = 0\<rparr>\<rparr>,
                   Skeleton \<lparr>landmark = replicate 21 \<lparr>lm_x = 1 / 2, lm_y = 1 / 2, lm_z = 0\<rparr>\<rparr>]\<rparr>,
        \<lparr>mode = False, max_hands = 2, detection_con = 1 / 2, track_con = 1 / 2, hands = 2,
         results = Some (one_hand (1 / 2) (1 / 2))\<rparr>)
   \<and> (\<forall>m m'. fst (process (mock_lib (one_hand (1 / 2) (1 / 2))) m
                 (cvtColor_BGR2RGB (mock_lib (one_hand (1 / 2) (1 / 2))) (blank_frame 640 480)))
           = fst (process (mock_lib (one_hand (1 / 2) (1 / 2))) m'
                 (cvtColor_BGR2RGB (mock_lib (one_hand (1 / 2) (1 / 2))) (blank_frame 640 480))))
   \<and> (\<forall>m. fst (process (mock_lib (one_hand (1 / 2) (1 / 2))) m
                 (cvtColor_BGR2RGB (mock_lib (one_hand (1 / 2) (1 / 2)))
                    \<lparr>shape = (480, 640, 3),
                     pixels = [Skeleton \<lparr>landmark = replicate 21 \<lparr>lm_x = 1 / 2, lm_y = 1 / 2, lm_z = 0\<rparr>\<rparr>]\<rparr>))
           = fst (process (mock_lib (one_hand (1 / 2) (1 / 2))) m
                 (cvtColor_BGR2RGB (mock_lib (one_hand (1 / 2) (1 / 2))) (blank_frame 640 480))))
   \<and> fst (findPosition (mock_lib (one_hand (1 / 2) (1 / 2)))
            \<lparr>mode = False, max_hands = 2, detection_con = 1 / 2, track_con = 1 / 2, hands = 2,
             results = Some (one_hand (1 / 2) (1 / 2))\<rparr>
            \<lparr>shape = (480, 640, 3),
             pixels = [Skeleton \<lparr>landmark = replicate 21 \<lparr>lm_x = 1 / 2, lm_y = 1 / 2, lm_z = 0\<rparr>\<rparr>,
                       Skeleton \<lparr>landmark = replicate 21 \<lparr>lm_x = 1 / 2, lm_y = 1 / 2, lm_z = 0\<rparr>\<rparr>]\<rparr>
            0 False)
     = fst (findPosition (mock_lib (one_hand (1 / 2) (1 / 2)))
            \<lparr>mode = False, max_hands = 2, detection_con = 1 / 2, track_con = 1 / 2, hands = 1,
             results = Some (one_hand (1 / 2) (1 / 2))\<rparr>
            \<lparr>shape = (480, 640, 3),
             pixels = [Skeleton \<lparr>landmark = replicate 21 \<lparr>lm_x = 1 / 2, lm_y = 1 / 2, lm_z = 0\<rparr>\<rparr>]\<rparr>
            0 False)"
proof -
  have a: "findHands (mock_lib (one_hand (1 / 2) (1 / 2)))
       (HandDetector_default (mock_lib (one_hand (1 / 2) (1 / 2)))) (blank_frame 640 480) True
     = (\<lparr>shape = (480, 640, 3),
         pixels = [Skeleton \<lparr>landmark = replicate 21 \<lparr>lm_x = 1 / 2, lm_y = 1 / 2, lm_z = 0\<rparr>\<rparr>]\<rparr>,
        \<lparr>mode = False, max_hands = 2, detection_con = 1 / 2, track_con = 1 / 2, hands = 1,
         results = Some (one_hand (1 / 2) (1 / 2))\<rparr>)"
    by (simp add: findHands_def mock_lib_def one_hand_def blank_frame_def HandDetector_default_def
        HandDetector_init_def Let_def)
  have b: "findHands (mock_lib (one_hand (1 / 2) (1 / 2)))
       \<lparr>mode = False, max_hands = 2, detection_con = 1 / 2, track_con = 1 / 2, hands = 1,
        results = Some (one_hand (1 / 2) (1 / 2))\<rparr>
       \<lparr>shape = (480, 640, 3),
        pixels = [Skeleton \<lparr>landmark = replicate 21 \<lparr>lm_x = 1 / 2, lm_y = 1 / 2, lm_z = 0\<rparr>\<rparr>]\<rparr>
       True
     = (\<lparr>shape = (480, 640, 3),
         pixels = [Skeleton \<lparr>landmark = replicate 21 \<lparr>lm_x = 1 / 2, lm_y = 1 / 2, lm_z = 0\<rparr>\<rparr>,
                   Skeleton \<lparr>landmark = replicate 21 \<lparr>lm_x = 1 / 2, lm_y = 1 / 2, lm_z = 0\<rparr>\<rparr>]\<rparr>,
        \<lparr>mode = False, max_hands = 2, detection_con = 1 / 2, track_con = 1 / 2, hands = 2,
         results = Some (one_hand (1 / 2) (1 / 2))\<rparr>)"
    by (simp add: findHands_def mock_lib_def one_hand_def Let_def)
  have c: "fst (process (mock_lib (one_hand (1 / 2) (1 / 2))) m
                 (cvtColor_BGR2RGB (mock_lib (one_hand (1 / 2) (1 / 2))) (blank_frame 640 480)))
           = fst (process (mock_lib (one_hand (1 / 2) (1 / 2))) m'
                 (cvtColor_BGR2RGB (mock_lib (one_hand (1 / 2) (1 / 2))) (blank_frame 640 480)))"
    for m m'
    by (simp add: mock_lib_def)
  have d: "\<forall>m. fst (process (mock_lib (one_hand (1 / 2) (1 / 2))) m
                 (cvtColor_BGR2RGB (mock_lib (one_hand (1 / 2) (1 / 2)))
                    \<lparr>shape = (480, 640, 3),
                     pixels = [Skeleton \<lparr>landmark = replicate 21 \<lparr>lm_x = 1 / 2, lm_y = 1 / 2, lm_z = 0\<rparr>\<rparr>]\<rparr>))
           = fst (process (mock_lib (one_hand (1 / 2) (1 / 2))) m
                 (cvtColor_BGR2RGB (mock_lib (one_hand (1 / 2) (1 / 2))) (blank_frame 640 480)))"
    by (simp add: mock_lib_def)
  from findHands_twice_same_result [OF a b c, of 0 False] d c a b
  show ?thesis by blast
qed

text \<open>
  The claim as stated fails at the test double whose model looks at the pixels, which
  is deterministic: on a blank frame the first call finds one hand and draws it, the
  second call on the same array finds none, and the positions differ.
\<close>

lemma clean_frame_lib_deterministic:
  "fst (process clean_frame_lib m img) = fst (process clean_frame_lib m' img)"
  by (simp add: clean_frame_lib_def)

theorem findHands_twice_counterexample:
  "results (snd (findHands clean_frame_lib (HandDetector_default clean_frame_lib)
                   (blank_frame 640 480) True))
     = Some (one_hand (1 / 2) (1 / 2))
   \<and> results (snd (findHands clean_frame_lib
                   (snd (findHands clean_frame_lib (HandDetector_default clean_frame_lib)
                           (blank_frame 640 480) True))
                   (fst (findHands clean_frame_lib (HandDetector_default clean_frame_lib)
                           (blank_frame 640 480) True)) True))
     = Some no_hands
   \<and> fst (findPosition clean_frame_lib
            (snd (findHands clean_frame_lib
                   (snd (findHands clean_frame_lib (HandDetector_default clean_frame_lib)
                           (blank_frame 640 480) True))
                   (fst (findHands clean_frame_lib (HandDetector_default clean_frame_lib)
                           (blank_frame 640 480) True)) True))
            (fst (findHands clean_frame_lib (HandDetector_default clean_frame_lib)
                           (blank_frame 640 480) True)) 0 False)
     = Inr []
   \<and> fst (findPosition clean_frame_lib
            (snd (findHands clean_frame_lib (HandDetector_default clean_frame_lib)
                    (blank_frame 640 480) True))
            (fst (findHands clean_frame_lib (HandDetector_default clean_frame_lib)
                    (blank_frame 640 480) True)) 0 False)
     = Inr [[0, 320, 240], [1, 320, 240], [2, 320, 240], [3, 320, 240], [4, 320, 240], [5,
            320, 240], [6, 320, 240], [7, 320, 240], [8, 320, 240], [9, 320, 240], [10, 320,
            240], [11, 320, 240], [12, 320, 240], [13, 320, 240], [14, 320, 240], [15, 320,
            240], [16, 320, 240], [17, 320, 240], [18, 320, 240], [19, 320, 240], [20, 320,
            240]]
   \<and> one_hand (1 / 2) (1 / 2) \<noteq> no_hands"
  by (simp add: findHands_def findPosition_def clean_frame_lib_def mock_lib_def one_hand_def
      no_hands_def blank_frame_def HandDetector_default_def HandDetector_init_def Let_def
      py_getitem_def py_int_def eval_nat_numeral)

section \<open>Frames per second\<close>

text \<open>
  C4 (as amended).  A pass of the main loop that reads a frame raises nothing and ends
  with \<^verbatim>\<open>pTime\<close> set to the clock reading \<^verbatim>\<open>cTime\<close> and with \<^verbatim>\<open>fps\<close> equal to the
  reciprocal of \<^verbatim>\<open>cTime - pTime\<close> when that difference is strictly positive and to 0
  otherwise, both computed in binary64.  The value is never negative, and the text
  drawn on the frame that is shown is \<^verbatim>\<open>FPS:\<close> followed by the decimal digits of the
  value truncated to an integer.  For equal readings the value is 0.  For the readings
  10.000 and 10.050 the value is 19.999999999999716: within \<open>1 / 10 ^ 12\<close> of 20 but below
  it, because the binary64 number nearest to 10.05 lies above 10.05, and the frame shows
  \<^verbatim>\<open>FPS: 19\<close>.
\<close>

theorem loop_body_fps:
  "\<exists>st' img2.
     loop_body lib st (ReadOk img now key) = (if key AND 255 = 27 then Break st' else Continue st')
   \<and> fps st' = Some (if 0 < b64 (b64 now - pTime st)
                      then b64 (1 / b64 (b64 now - pTime st)) else 0)
   \<and> pTime st' = b64 now
   \<and> last (shown st') =
        img2\<lparr>pixels := putText lib img2 (''FPS: '' @ str_int (py_int (the (fps st'))))
                          (10, 70) 2 (255, 0, 0) 3\<rparr>
   \<and> 0 \<le> the (fps st')
   \<and> decimal_value (str_int (py_int (the (fps st')))) = nat (py_int (the (fps st')))
   \<and> (b64 now = pTime st \<longrightarrow> fps st' = Some 0)
   \<and> (pTime st = 10 \<and> now = 201 / 20 \<longrightarrow>
        fps st' = Some (351843720888315 / 17592186044416)
      \<and> \<bar>the (fps st') - 20\<bar> < 1 / 10 ^ 12
      \<and> str_int (py_int (the (fps st'))) = ''19'')"
proof -
  from loop_body_ReadOk [of lib st img now key]
  obtain st' img2 where
    b: "loop_body lib st (ReadOk img now key) = (if key AND 255 = 27 then Break st' else Continue st')"
    and f: "fps st' = Some (if 0 < b64 (b64 now - pTime st)
                      then b64 (1 / b64 (b64 now - pTime st)) else 0)"
    and p: "pTime st' = b64 now"
    and s: "shown st' = shown st @
        [img2\<lparr>pixels := putText lib img2
            (''FPS: '' @ str_int (py_int (if 0 < b64 (b64 now - pTime st)
                                          then b64 (1 / b64 (b64 now - pTime st)) else 0)))
            (10, 70) 2 (255, 0, 0) 3\<rparr>]"
    by blast
  have l: "last (shown st') =
        img2\<lparr>pixels := putText lib img2 (''FPS: '' @ str_int (py_int (the (fps st'))))
                          (10, 70) 2 (255, 0, 0) 3\<rparr>"
    by (simp add: s f)
  have z: "b64 now = pTime st \<longrightarrow> fps st' = Some 0"
    by (simp add: f b64_0)
  have t: "pTime st = 10 \<and> now = 201 / 20 \<longrightarrow>
        fps st' = Some (351843720888315 / 17592186044416)
      \<and> \<bar>the (fps st') - 20\<bar> < 1 / 10 ^ 12
      \<and> str_int (py_int (the (fps st'))) = ''19''"
  proof (intro impI)
    assume h: "pTime st = 10 \<and> now = 201 / 20"
    then have q: "pTime st = 10" and n: "now = 201 / 20" by blast+
    have d: "b64 (b64 now - pTime st) = 14073748835533 / 281474976710656"
      by (simp add: q n b64_10_05 b64_elapsed)
    have v: "fps st' = Some (351843720888315 / 17592186044416)"
      unfolding f d by (simp add: b64_quotient)
    show "fps st' = Some (351843720888315 / 17592186044416)
      \<and> \<bar>the (fps st') - 20\<bar> < 1 / 10 ^ 12
      \<and> str_int (py_int (the (fps st'))) = ''19''"
      by (simp add: v str_int_19)
  qed
  have n: "0 \<le> the (fps st')"
    unfolding f by (simp add: b64_nonneg)
  then have "0 \<le> py_int (the (fps st'))"
    by (rule py_int_nonneg)
  then have g: "decimal_value (str_int (py_int (the (fps st')))) = nat (py_int (the (fps st')))"
    by (simp add: str_int_def decimal_value_str_nat)
  from b f p l n g t z show ?thesis by blast
qed

text \<open>
  The theorem at a state whose previous reading is 10, for a frame read at 10.05 and
  for a frame read at 10.
\<close>

theorem loop_body_fps_witness:
  "pTime ((main_init (mock_lib no_hands))\<lparr>pTime := 10, cTime := 10\<rparr>) = 10
   \<and> (\<exists>st'. loop_body (mock_lib no_hands) ((main_init (mock_lib no_hands))\<lparr>pTime := 10, cTime := 10\<rparr>)
              (ReadOk (blank_frame 640 480) (201 / 20) (- 1)) = Continue st'
            \<and> fps st' = Some (351843720888315 / 17592186044416)
            \<and> pTime st' = 2828823515942093 / 281474976710656
            \<and> pixels (last (shown st')) = [Text ''FPS: 19'' (10, 70) 2 (255, 0, 0) 3])
   \<and> b64 10 = pTime ((main_init (mock_lib no_hands))\<lparr>pTime := 10, cTime := 10\<rparr>)
   \<and> (\<exists>st'. loop_body (mock_lib no_hands) ((main_init (mock_lib no_hands))\<lparr>pTime := 10, cTime := 10\<rparr>)
              (ReadOk (blank_frame 640 480) 10 (- 1)) = Continue st'
            \<and> fps st' = Some 0 \<and> pTime st' = 10
            \<and> pixels (last (shown st')) = [Text ''FPS: 0'' (10, 70) 2 (255, 0, 0) 3])"
proof -
  have a: "pTime ((main_init (mock_lib no_hands))\<lparr>pTime := 10, cTime := 10\<rparr>) = 10"
    by simp
  have e: "loop_body (mock_lib no_hands) ((main_init (mock_lib no_hands))\<lparr>pTime := 10, cTime := 10\<rparr>)
              (ReadOk (blank_frame 640 480) now (- 1)) = Continue st' \<Longrightarrow>
           pixels (last (shown st')) = [Text (''FPS: '' @ str_int (py_int (the (fps st')))) (10, 70) 2 (255, 0, 0) 3]"
    for now st'
    by (auto simp: loop_body_def findHands_def findPosition_def mock_lib_def no_hands_def
        blank_frame_def main_init_def Let_def)
  have k: "(- 1 :: int) AND 255 \<noteq> 27"
    by simp
  from loop_body_fps [of "mock_lib no_hands"
        "(main_init (mock_lib no_hands))\<lparr>pTime := 10, cTime := 10\<rparr>"
        "blank_frame 640 480" "201 / 20" "- 1"]
  obtain s1 where
    b1: "loop_body (mock_lib no_hands) ((main_init (mock_lib no_hands))\<lparr>pTime := 10, cTime := 10\<rparr>)
           (ReadOk (blank_frame 640 480) (201 / 20) (- 1))
         = (if (- 1 :: int) AND 255 = 27 then Break s1 else Continue s1)"
    and p1: "pTime s1 = b64 (201 / 20)"
    and h1: "pTime ((main_init (mock_lib no_hands))\<lparr>pTime := 10, cTime := 10\<rparr>) = 10
             \<and> (201 / 20 :: real) = 201 / 20 \<longrightarrow>
               fps s1 = Some (351843720888315 / 17592186044416)
             \<and> \<bar>the (fps s1) - 20\<bar> < 1 / 10 ^ 12
             \<and> str_int (py_int (the (fps s1))) = ''19''"
    by blast
  from b1 k have c1: "loop_body (mock_lib no_hands)
           ((main_init (mock_lib no_hands))\<lparr>pTime := 10, cTime := 10\<rparr>)
           (ReadOk (blank_frame 640 480) (201 / 20) (- 1)) = Continue s1"
    by (simp only: if_False)
  from h1 a have f1: "fps s1 = Some (351843720888315 / 17592186044416)"
    and t1: "str_int (py_int (the (fps s1))) = ''19''"
    by blast+
  from e [OF c1] t1 have x1: "pixels (last (shown s1)) = [Text ''FPS: 19'' (10, 70) 2 (255, 0, 0) 3]"
    by simp
  from loop_body_fps [of "mock_lib no_hands"
        "(main_init (mock_lib no_hands))\<lparr>pTime := 10, cTime := 10\<rparr>"
        "blank_frame 640 480" 10 "- 1"]
  obtain s2 where
    b2: "loop_body (mock_lib no_hands) ((main_init (mock_lib no_hands))\<lparr>pTime := 10, cTime := 10\<rparr>)
           (ReadOk (blank_frame 640 480) 10 (- 1))
         = (if (- 1 :: int) AND 255 = 27 then Break s2 else Continue s2)"
    and p2: "pTime s2 = b64 10"
    and h2: "b64 10 = pTime ((main_init (mock_lib no_hands))\<lparr>pTime := 10, cTime := 10\<rparr>)
               \<longrightarrow> fps s2 = Some 0"
    by blast
  from b2 k have c2: "loop_body (mock_lib no_hands)
           ((main_init (mock_lib no_hands))\<lparr>pTime := 10, cTime := 10\<rparr>)
           (ReadOk (blank_frame 640 480) 10 (- 1)) = Continue s2"
    by (simp only: if_False)
  have z: "b64 10 = pTime ((main_init (mock_lib no_hands))\<lparr>pTime := 10, cTime := 10\<rparr>)"
    by (simp add: b64_10)
  from h2 z have f2: "fps s2 = Some 0"
    by blast
  from e [OF c2] f2 have x2: "pixels (last (shown s2)) = [Text ''FPS: 0'' (10, 70) 2 (255, 0, 0) 3]"
    by (simp add: str_int_0)
  from c1 f1 p1 x1 have w1: "\<exists>st'. loop_body (mock_lib no_hands)
              ((main_init (mock_lib no_hands))\<lparr>pTime := 10, cTime := 10\<rparr>)
              (ReadOk (blank_frame 640 480) (201 / 20) (- 1)) = Continue st'
            \<and> fps st' = Some (351843720888315 / 17592186044416)
            \<and> pTime st' = 2828823515942093 / 281474976710656
            \<and> pixels (last (shown st')) = [Text ''FPS: 19'' (10, 70) 2 (255, 0, 0) 3]"
    by (intro exI [of _ s1]) (simp add: b64_10_05)
  from c2 f2 p2 x2 have w2: "\<exists>st'. loop_body (mock_lib no_hands)
              ((main_init (mock_lib no_hands))\<lparr>pTime := 10, cTime := 10\<rparr>)
              (ReadOk (blank_frame 640 480) 10 (- 1)) = Continue st'
            \<and> fps st' = Some 0 \<and> pTime st' = 10
            \<and> pixels (last (shown st')) = [Text ''FPS: 0'' (10, 70) 2 (255, 0, 0) 3]"
    by (intro exI [of _ s2]) (simp add: b64_10)
  from a w1 z w2 show ?thesis by blast
qed

text \<open>
  The claim as stated, that the reported value for the readings 10.000 and 10.050 is
  20, fails: a run of \<^verbatim>\<open>main\<close> with a frame read at 10.000 and a second frame read at
  10.050, on which Escape is pressed, ends with \<^verbatim>\<open>fps\<close> below 20 and has shown
  \<^verbatim>\<open>FPS: 19\<close> on the second frame.
\<close>

theorem main_fps_counterexample:
  "main (mock_lib no_hands)
     [ReadOk (blank_frame 640 480) 10 (- 1), ReadOk (blank_frame 640 480) (201 / 20) 27]
   = Some (Inr
       \<lparr>pTime = 2828823515942093 / 281474976710656,
        cTime = 2828823515942093 / 281474976710656,
        fps = Some (351843720888315 / 17592186044416),
        detector = \<lparr>mode = False, max_hands = 2, detection_con = 1 / 2, track_con = 1 / 2,
                    hands = 2, results = Some no_hands\<rparr>,
        stdout = [],
        shown = [\<lparr>shape = (480, 640, 3), pixels = [Text ''FPS: 0'' (10, 70) 2 (255, 0, 0) 3]\<rparr>,
                 \<lparr>shape = (480, 640, 3), pixels = [Text ''FPS: 19'' (10, 70) 2 (255, 0, 0) 3]\<rparr>],
        cap_released = True, windows_destroyed = True\<rparr>)
   \<and> (351843720888315 / 17592186044416 :: real) \<noteq> 20"
  by (simp add: main_def main_init_def loop_body_def findHands_def findPosition_def mock_lib_def
      no_hands_def blank_frame_def HandDetector_default_def HandDetector_init_def Let_def
      b64_def ilog2.simps pow2_def round_half_even_def
      str_int_def py_int_def str_nat.simps digit_char_def)

section \<open>Leaving the main loop\<close>

text \<open>
  C7.  If the first read fails, \<^verbatim>\<open>main\<close> returns with no frame processed or shown, the
  detector still as constructed, the message printed, the capture released and the
  windows closed.  A failed read ends the loop at once: what the environment would have
  supplied afterwards has no effect.  After any number of passes on which the loop goes
  on, a failed read makes \<^verbatim>\<open>main\<close> return with exactly those frames shown, and an
  Escape key makes it return with one frame more; the capture is released and the
  windows are closed in both cases.  Whenever \<^verbatim>\<open>main\<close> returns it returns normally,
  never by an exception of \<^verbatim>\<open>findPosition\<close>, and with both resources released.
\<close>

theorem main_stops_and_releases:
  "main lib (ReadFailed # rest) =
     Some (Inr ((main_init lib)\<lparr>stdout := [Message ''Failed to read from webcam.''],
                                cap_released := True, windows_destroyed := True\<rparr>))
   \<and> main lib (pre @ ReadFailed # rest) = main lib (pre @ [ReadFailed])
   \<and> (list_all continues pre \<longrightarrow>
        (\<exists>st. main lib (pre @ ReadFailed # rest) = Some (Inr st)
            \<and> length (shown st) = length pre \<and> cap_released st \<and> windows_destroyed st))
   \<and> (list_all continues pre \<and> key AND 255 = 27 \<longrightarrow>
        (\<exists>st. main lib (pre @ ReadOk img now key # rest) = Some (Inr st)
            \<and> length (shown st) = Suc (length pre) \<and> cap_released st \<and> windows_destroyed st))
   \<and> (\<forall>r. main lib tks = Some r \<longrightarrow>
        (\<exists>st. r = Inr st \<and> cap_released st \<and> windows_destroyed st))"
proof -
  have first: "main lib (ReadFailed # rest) =
     Some (Inr ((main_init lib)\<lparr>stdout := [Message ''Failed to read from webcam.''],
                                cap_released := True, windows_destroyed := True\<rparr>))"
    by (simp add: main_def loop_body_ReadFailed main_init_def)
  have later: "main lib (pre @ ReadFailed # rest) = main lib (pre @ [ReadFailed])"
    by (simp add: main_def main_loop_stops_at_failure [of lib _ pre rest])
  have fail: "\<exists>st. main lib (pre @ ReadFailed # rest) = Some (Inr st)
            \<and> length (shown st) = length pre \<and> cap_released st \<and> windows_destroyed st"
    if "list_all continues pre"
  proof -
    from main_loop_prefix [OF that, of lib "main_init lib"]
    obtain s where s: "\<forall>rest. main_loop lib (main_init lib) (pre @ rest) = main_loop lib s rest"
      and n: "length (shown s) = length (shown (main_init lib)) + length pre" by blast
    have "main_loop lib (main_init lib) (pre @ ReadFailed # rest) =
            Some (Inr (s\<lparr>stdout := stdout s @ [Message ''Failed to read from webcam.'']\<rparr>))"
      by (simp add: s loop_body_ReadFailed)
    then show ?thesis using n by (simp add: main_def main_init_def)
  qed
  have esc: "\<exists>st. main lib (pre @ ReadOk img now key # rest) = Some (Inr st)
            \<and> length (shown st) = Suc (length pre) \<and> cap_released st \<and> windows_destroyed st"
    if "list_all continues pre" and k: "key AND 255 = 27"
  proof -
    from main_loop_prefix [OF that(1), of lib "main_init lib"]
    obtain s where s: "\<forall>rest. main_loop lib (main_init lib) (pre @ rest) = main_loop lib s rest"
      and n: "length (shown s) = length (shown (main_init lib)) + length pre" by blast
    from loop_body_ReadOk [of lib s img now key] k
    obtain s' where b: "loop_body lib s (ReadOk img now key) = Break s'"
      and n': "length (shown s') = Suc (length (shown s))" by auto
    have "main_loop lib (main_init lib) (pre @ ReadOk img now key # rest) = Some (Inr s')"
      by (simp add: s b)
    then show ?thesis using n n' by (simp add: main_def main_init_def)
  qed
  have every: "\<exists>st. r = Inr st \<and> cap_released st \<and> windows_destroyed st"
    if "main lib tks = Some r" for r
    using that main_loop_never_raises [of lib "main_init lib" tks]
    by (auto simp: main_def split: option.splits sum.splits)
  from first later fail esc every show ?thesis by blast
qed

text \<open>
  The theorem for one good frame followed by a failed read, and for one good frame
  followed by a frame on which Escape is pressed.
\<close>

theorem main_stops_and_releases_witness:
  "list_all continues [ReadOk (blank_frame 640 480) 10 (- 1)]
   \<and> (\<exists>st. main (mock_lib no_hands)
              ([ReadOk (blank_frame 640 480) 10 (- 1)] @ ReadFailed # [ReadOk (blank_frame 640 480) 11 27])
            = Some (Inr st)
          \<and> length (shown st) = length [ReadOk (blank_frame 640 480) 10 (- 1)]
          \<and> cap_released st \<and> windows_destroyed st)
   \<and> (27 :: int) AND 255 = 27
   \<and> (\<exists>st. main (mock_lib no_hands)
              ([ReadOk (blank_frame 640 480) 10 (- 1)] @ ReadOk (blank_frame 640 480) 11 27 # [ReadFailed])
            = Some (Inr st)
          \<and> length (shown st) = Suc (length [ReadOk (blank_frame 640 480) 10 (- 1)])
          \<and> cap_released st \<and> windows_destroyed st)"
proof -
  have a: "list_all continues [ReadOk (blank_frame 640 480) 10 (- 1)]"
    by simp
  have k: "(27 :: int) AND 255 = 27"
    by simp
  show ?thesis
    using main_stops_and_releases [of "mock_lib no_hands" "[ReadOk (blank_frame 640 480) 11 27]"
        "[ReadOk (blank_frame 640 480) 10 (- 1)]" 27 "blank_frame 640 480" 11 "[]"]
      main_stops_and_releases [of "mock_lib no_hands" "[ReadFailed]"
        "[ReadOk (blank_frame 640 480) 10 (- 1)]" 27 "blank_frame 640 480" 11 "[]"] a k
    by blast
qed

end
